theory Spec2Isabelle
  imports Main "HOL-Library.Word"
begin

section \<open>Failures crossing the native side\<close>

text \<open>
  The binding layer reports a failure by first leaving an error pending in the runtime
  context (\<^verbatim>\<open>JS_ThrowTypeError\<close>, \<^verbatim>\<open>JS_ThrowRangeError\<close>, \<^verbatim>\<open>JS_ThrowInternalError\<close>, or
  an engine primitive that failed on its own) and then throwing \<^verbatim>\<open>qjs::exception(ctx)\<close>.
  A printf-style message is kept as its format string and its argument list;
  \<^verbatim>\<open>typeid(T).name()\<close> is kept symbolic. A function that can fail answers
  \<open>failure + 'a\<close>: the thrown \<^verbatim>\<open>qjs::exception\<close> with the error it left pending, any
  other C++ exception, the call of \<^verbatim>\<open>std::terminate\<close> that an
  exception leaving a \<^verbatim>\<open>noexcept\<close> function causes, or undefined behaviour. A standard
  exception is named by its type, its \<^verbatim>\<open>what()\<close> text being left to the implementation.
\<close>

datatype Integer = Bool | Signed nat | Unsigned nat

datatype fmt_arg = Str string | Num int | Typeid_Integer Integer | Typeid_class string

datatype js_error =
    TypeError string "fmt_arg list"
  | RangeError string "fmt_arg list"
  | InternalError string "fmt_arg list"
  | EnginePending

datatype failure =
    exception js_error
  | std_exception string
  | std_terminate
  | undefined_behaviour string

section \<open>Native integral types\<close>

text \<open>
  A native integral type is \<^verbatim>\<open>bool\<close>, or a signed or unsigned type of a given
  \<^verbatim>\<open>sizeof\<close> in bytes. Values are mathematical integers inside the type's range;
  \<^verbatim>\<open>static_cast\<close> to an integral type reduces modulo the width.
\<close>

fun sizeof :: "Integer \<Rightarrow> nat" where
  "sizeof Bool = 1"
| "sizeof (Signed n) = n"
| "sizeof (Unsigned n) = n"

fun is_signed :: "Integer \<Rightarrow> bool" where
  "is_signed Bool = False"
| "is_signed (Signed n) = True"
| "is_signed (Unsigned n) = False"

fun numeric_limits_max :: "Integer \<Rightarrow> int" where
  "numeric_limits_max Bool = 1"
| "numeric_limits_max (Signed n) = 2 ^ (8 * n - 1) - 1"
| "numeric_limits_max (Unsigned n) = 2 ^ (8 * n) - 1"

fun numeric_limits_min :: "Integer \<Rightarrow> int" where
  "numeric_limits_min Bool = 0"
| "numeric_limits_min (Signed n) = - (2 ^ (8 * n - 1))"
| "numeric_limits_min (Unsigned n) = 0"

definition int32_t :: Integer where "int32_t = Signed 4"
definition uint32_t :: Integer where "uint32_t = Unsigned 4"
definition int64_t :: Integer where "int64_t = Signed 8"

definition UINT32_MAX :: int where "UINT32_MAX = 4294967295"

text \<open>\<^verbatim>\<open>std::in_range<T>(x)\<close>: the mathematical value of x is representable in T.\<close>

definition in_range :: "Integer \<Rightarrow> int \<Rightarrow> bool" where
  "in_range T x = (numeric_limits_min T \<le> x \<and> x \<le> numeric_limits_max T)"

fun static_cast :: "Integer \<Rightarrow> int \<Rightarrow> int" where
  "static_cast Bool x = (if x = 0 then 0 else 1)"
| "static_cast (Signed n) x = (x + 2 ^ (8 * n - 1)) mod 2 ^ (8 * n) - 2 ^ (8 * n - 1)"
| "static_cast (Unsigned n) x = x mod 2 ^ (8 * n)"

section \<open>Conversion traits for bool\<close>

text \<open>
  \<^verbatim>\<open>js_traits<bool>::unwrap\<close> is \<^verbatim>\<open>noexcept\<close> and returns
  \<^verbatim>\<open>JS_ToBool(ctx, val) > 0\<close>. The engine primitive is a parameter; it answers
  1, 0, or a negative status when the conversion failed.
\<close>

definition js_traits_bool_unwrap :: "('ctx \<Rightarrow> 'v \<Rightarrow> int) \<Rightarrow> 'ctx \<Rightarrow> 'v \<Rightarrow> bool" where
  "js_traits_bool_unwrap JS_ToBool ctx val = (JS_ToBool ctx val > 0)"

section \<open>Property access traits for integer keys\<close>

text \<open>
  \<^verbatim>\<open>property_traits<Integer>\<close> exists only when
  \<^verbatim>\<open>sizeof(Integer) <= sizeof(int64_t)\<close>; otherwise the primary template, which
  has neither \<^verbatim>\<open>get\<close> nor \<^verbatim>\<open>set\<close>, is chosen (\<open>None\<close>). The four engine accessors
  are parameters; a setter answers a status and the context it leaves behind.
\<close>

definition property_traits_requires :: "Integer \<Rightarrow> bool" where
  "property_traits_requires K = (sizeof K \<le> sizeof int64_t)"

definition routes_int64 :: "Integer \<Rightarrow> bool" where
  "routes_int64 K = (numeric_limits_max K > UINT32_MAX \<or> is_signed K)"

definition property_traits_get ::
  "('ctx \<Rightarrow> 'v \<Rightarrow> int \<Rightarrow> 'v) \<Rightarrow> ('ctx \<Rightarrow> 'v \<Rightarrow> int \<Rightarrow> 'v) \<Rightarrow>
   Integer \<Rightarrow> 'ctx \<Rightarrow> 'v \<Rightarrow> int \<Rightarrow> 'v option" where
  "property_traits_get JS_GetPropertyInt64 JS_GetPropertyUint32 K ctx this_obj idx =
     (if \<not> property_traits_requires K then None
      else if routes_int64 K
        then Some (JS_GetPropertyInt64 ctx this_obj (static_cast int64_t idx))
        else Some (JS_GetPropertyUint32 ctx this_obj (static_cast uint32_t idx)))"

definition property_traits_set ::
  "('ctx \<Rightarrow> 'v \<Rightarrow> int \<Rightarrow> 'v \<Rightarrow> int \<times> 'ctx) \<Rightarrow> ('ctx \<Rightarrow> 'v \<Rightarrow> int \<Rightarrow> 'v \<Rightarrow> int \<times> 'ctx) \<Rightarrow>
   Integer \<Rightarrow> 'ctx \<Rightarrow> 'v \<Rightarrow> int \<Rightarrow> 'v \<Rightarrow> ((failure + unit) \<times> 'ctx) option" where
  "property_traits_set JS_SetPropertyInt64 JS_SetPropertyUint32 K ctx this_obj idx val =
     (if \<not> property_traits_requires K then None
      else if routes_int64 K
        then (case JS_SetPropertyInt64 ctx this_obj (static_cast int64_t idx) val of
                (status, ctx') \<Rightarrow>
                  if status < 0 then Some (Inl (exception EnginePending), ctx')
                  else Some (Inr (), ctx'))
        else (case JS_SetPropertyUint32 ctx this_obj (static_cast uint32_t idx) val of
                (status, ctx') \<Rightarrow>
                  if status < 0 then Some (Inl (exception EnginePending), ctx')
                  else Some (Inr (), ctx')))"

section \<open>Conversion traits for integers\<close>






section \<open>Runtime values and the engine state\<close>

text \<open>
  The engine is an external collaborator. A \<^verbatim>\<open>JSValue\<close> is the pair the engine's
  public header exposes through \<^verbatim>\<open>JS_VALUE_GET_TAG\<close> and \<^verbatim>\<open>JS_VALUE_GET_PTR\<close>: a tag
  and a payload word, with the tag numbers of that header. Tags with a reference count
  are the negative ones from \<^verbatim>\<open>JS_TAG_FIRST\<close> up; \<^verbatim>\<open>JS_DupValue\<close> and \<^verbatim>\<open>JS_FreeValue\<close> count references in
  the header the payload points to, and the engine frees the cell when the count
  drops to zero. The state reachable from a \<^verbatim>\<open>JSContext*\<close> is a record: the reference
  counts, the freed cells, the next class identity, the pending exception, and for
  every object cell its class identity and its opaque slot.
\<close>

record JSValue =
  JS_VALUE_GET_TAG :: int
  JS_VALUE_GET_PTR :: "64 word"

definition JS_TAG_FIRST :: int where "JS_TAG_FIRST = - 9"
definition JS_TAG_STRING :: int where "JS_TAG_STRING = - 7"
definition JS_TAG_MODULE :: int where "JS_TAG_MODULE = - 3"
definition JS_TAG_OBJECT :: int where "JS_TAG_OBJECT = - 1"
definition JS_TAG_UNINITIALIZED :: int where "JS_TAG_UNINITIALIZED = 4"


definition JS_UNINITIALIZED :: JSValue where
  "JS_UNINITIALIZED = \<lparr>JS_VALUE_GET_TAG = JS_TAG_UNINITIALIZED, JS_VALUE_GET_PTR = 0\<rparr>"


definition JS_VALUE_HAS_REF_COUNT :: "JSValue \<Rightarrow> bool" where
  "JS_VALUE_HAS_REF_COUNT v = (JS_TAG_FIRST \<le> JS_VALUE_GET_TAG v \<and> JS_VALUE_GET_TAG v < 0)"

text \<open>
  A native instance is known by its address and its dynamic type; a
  \<^verbatim>\<open>std::shared_ptr\<close> is empty or points to an instance; an opaque slot is a null
  pointer or points to a heap-allocated \<^verbatim>\<open>std::shared_ptr\<close>.
\<close>

record native_instance =
  address :: nat
  dynamic_type :: string

type_synonym shared_ptr = "native_instance option"

type_synonym JSClassID = nat

record JSContext =
  ref_count :: "64 word \<Rightarrow> int"
  freed :: "64 word set"
  js_class_id_alloc :: JSClassID
  current_exception :: JSValue
  obj_class_id :: "64 word \<Rightarrow> JSClassID"
  obj_opaque :: "64 word \<Rightarrow> shared_ptr option"

definition JS_DupValue :: "JSContext \<Rightarrow> JSValue \<Rightarrow> JSContext" where
  "JS_DupValue rt v =
     (if JS_VALUE_HAS_REF_COUNT v
        then rt\<lparr>ref_count := (ref_count rt)(JS_VALUE_GET_PTR v := ref_count rt (JS_VALUE_GET_PTR v) + 1)\<rparr>
        else rt)"

definition JS_FreeValue :: "JSContext \<Rightarrow> JSValue \<Rightarrow> JSContext" where
  "JS_FreeValue rt v =
     (if JS_VALUE_HAS_REF_COUNT v
        then (let n = ref_count rt (JS_VALUE_GET_PTR v) - 1;
                  rt' = rt\<lparr>ref_count := (ref_count rt)(JS_VALUE_GET_PTR v := n)\<rparr>
              in if n \<le> 0 then rt'\<lparr>freed := insert (JS_VALUE_GET_PTR v) (freed rt')\<rparr> else rt')
        else rt)"

section \<open>Value handles\<close>

text \<open>
  \<^verbatim>\<open>struct value { JSContext* ctx; JSValue v; }\<close>. A null \<^verbatim>\<open>ctx\<close> is \<open>None\<close>.
  Each operation answers the handles it leaves behind and the engine state.
\<close>

record qjs_value =
  ctx :: "nat option"
  v :: JSValue

text \<open>\<^verbatim>\<open>value(const value& val)\<close>: \<^verbatim>\<open>ctx = val.ctx; v = JS_DupValue(ctx, val.v);\<close>\<close>

definition value_copy :: "JSContext \<Rightarrow> qjs_value \<Rightarrow> qjs_value \<times> JSContext" where
  "value_copy rt val = (\<lparr>ctx = ctx val, v = v val\<rparr>, JS_DupValue rt (v val))"

text \<open>
  \<^verbatim>\<open>value(value&& val) : ctx(nullptr) { std::swap(ctx, val.ctx); v = val.v; }\<close>
  answers the new handle and the moved-from source.
\<close>

definition value_move :: "qjs_value \<Rightarrow> qjs_value \<times> qjs_value" where
  "value_move val = (\<lparr>ctx = ctx val, v = v val\<rparr>, val\<lparr>ctx := None\<rparr>)"

text \<open>\<^verbatim>\<open>~value()\<close>: \<^verbatim>\<open>if (ctx && JS_VALUE_GET_TAG(v) != JS_TAG_MODULE) JS_FreeValue(ctx, v);\<close>\<close>

definition value_destroy :: "JSContext \<Rightarrow> qjs_value \<Rightarrow> JSContext" where
  "value_destroy rt val =
     (if ctx val \<noteq> None \<and> JS_VALUE_GET_TAG (v val) \<noteq> JS_TAG_MODULE
        then JS_FreeValue rt (v val) else rt)"

text \<open>
  \<^verbatim>\<open>value& operator=(value val)\<close> swaps both fields with its by-value parameter,
  which is destroyed on return holding the former contents of \<^verbatim>\<open>*this\<close>.
\<close>

definition value_assign :: "JSContext \<Rightarrow> qjs_value \<Rightarrow> qjs_value \<Rightarrow> qjs_value \<times> JSContext" where
  "value_assign rt this val =
     (\<lparr>ctx = ctx val, v = v val\<rparr>, value_destroy rt \<lparr>ctx = ctx this, v = v this\<rparr>)"

text \<open>\<^verbatim>\<open>JSValue release()\<close>: \<^verbatim>\<open>ctx = nullptr; return v;\<close>\<close>

definition value_release :: "qjs_value \<Rightarrow> JSValue \<times> qjs_value" where
  "value_release val = (v val, val\<lparr>ctx := None\<rparr>)"

text \<open>
  \<^verbatim>\<open>bool operator==(JSValueConst other)\<close> and \<^verbatim>\<open>bool operator==(const value& val)\<close>.
\<close>

definition value_eq_JSValue :: "qjs_value \<Rightarrow> JSValue \<Rightarrow> bool" where
  "value_eq_JSValue this other =
     (JS_VALUE_GET_TAG (v this) = JS_VALUE_GET_TAG other \<and>
      JS_VALUE_GET_PTR (v this) = JS_VALUE_GET_PTR other)"

definition value_eq :: "qjs_value \<Rightarrow> qjs_value \<Rightarrow> bool" where
  "value_eq this val = value_eq_JSValue this (v val)"

text \<open>
  Creating n handles by copying one handle, one after the other, and destroying a
  list of handles in turn.
\<close>

fun copies :: "nat \<Rightarrow> JSContext \<Rightarrow> qjs_value \<Rightarrow> qjs_value list \<times> JSContext" where
  "copies 0 rt h = ([], rt)"
| "copies (Suc n) rt h =
     (case value_copy rt h of (c, rt') \<Rightarrow>
        (case copies n rt' h of (cs, rt'') \<Rightarrow> (c # cs, rt'')))"

fun destroy_all :: "JSContext \<Rightarrow> qjs_value list \<Rightarrow> JSContext" where
  "destroy_all rt [] = rt"
| "destroy_all rt (c # cs) = destroy_all (value_destroy rt c) cs"

section \<open>Conversion traits for std::optional\<close>




section \<open>Unwrapping the arguments of a call\<close>


definition size_t_minus :: "nat \<Rightarrow> nat \<Rightarrow> nat" where
  "size_t_minus a b = (a + 2 ^ 64 - b mod 2 ^ 64) mod 2 ^ 64"

definition PTRDIFF_MAX :: nat where "PTRDIFF_MAX = 2 ^ 63 - 1"

definition INT_MAX :: nat where "INT_MAX = 2 ^ 31 - 1"















section \<open>Example handles and an example engine state\<close>

text \<open>
  A handle to a module, a handle without a context that holds an object, two handles to
  two string cells, and an engine state in which every cell has one reference, no
  exception is pending and the next class identity is 1.
\<close>

definition module_handle :: qjs_value where
  "module_handle = \<lparr>ctx = Some 1, v = \<lparr>JS_VALUE_GET_TAG = JS_TAG_MODULE, JS_VALUE_GET_PTR = 16\<rparr>\<rparr>"

definition detached_handle :: qjs_value where
  "detached_handle = \<lparr>ctx = None, v = \<lparr>JS_VALUE_GET_TAG = JS_TAG_OBJECT, JS_VALUE_GET_PTR = 80\<rparr>\<rparr>"

definition string_handle_a :: qjs_value where
  "string_handle_a = \<lparr>ctx = Some 1, v = \<lparr>JS_VALUE_GET_TAG = JS_TAG_STRING, JS_VALUE_GET_PTR = 32\<rparr>\<rparr>"

definition string_handle_b :: qjs_value where
  "string_handle_b = \<lparr>ctx = Some 1, v = \<lparr>JS_VALUE_GET_TAG = JS_TAG_STRING, JS_VALUE_GET_PTR = 48\<rparr>\<rparr>"

definition fresh_context :: JSContext where
  "fresh_context = \<lparr>ref_count = (\<lambda>p. 1), freed = {}, js_class_id_alloc = 1,
     current_exception = JS_UNINITIALIZED, obj_class_id = (\<lambda>p. 0), obj_opaque = (\<lambda>p. None)\<rparr>"

section \<open>Conversion traits for std::shared_ptr and the derived-class casts\<close>

text \<open>
  Every native class T has its own statics in \<^verbatim>\<open>js_traits<std::shared_ptr<T>>\<close>: the class
  identity (0 while unregistered), the hook \<^verbatim>\<open>register_with_base\<close> (an empty
  \<^verbatim>\<open>std::function\<close> is \<open>None\<close>) and the map \<^verbatim>\<open>ptr_cast_fcn_map\<close>. Classes are known by
  their \<^verbatim>\<open>typeid\<close> name. The function values the code stores are kept as terms:
  \<^item> \<open>Unwrap D\<close> is \<^verbatim>\<open>js_traits<std::shared_ptr<D>>::unwrap\<close>, as
    \<^verbatim>\<open>ensure_can_cast_to_base\<close> passes it;
  \<^item> \<open>Converted T f\<close> is the lambda
    \<^verbatim>\<open>[derived_cast_fcn = f](ctx, v) { return std::shared_ptr<T>(derived_cast_fcn(ctx, v)); }\<close>;
  \<^item> \<open>Hook old T D\<close> is the lambda that \<^verbatim>\<open>js_traits<std::shared_ptr<T>>::register_derived_class<D>\<close>
    installs on D, capturing the hook D had before.
  The source assigns the hook to \<^verbatim>\<open>js_traits<std::shared_ptr<D>>::registerWithBase\<close>, a
  name no member has; the member meant is \<^verbatim>\<open>register_with_base\<close>, and the model reads
  it so.
\<close>

datatype ptr_cast_fcn = Unwrap string | Converted string ptr_cast_fcn

datatype hook = Hook "hook option" string string

record shared_ptr_traits =
  qjs_class_id :: JSClassID
  register_with_base :: "hook option"
  ptr_cast_fcn_map :: "JSClassID \<rightharpoonup> ptr_cast_fcn"

type_synonym statics = "string \<Rightarrow> shared_ptr_traits"







text \<open>
  \<^verbatim>\<open>register_derived_class<D>\<close> of class T, and the call of a stored hook. A hook calls
  \<^verbatim>\<open>register_derived_class\<close>, which calls the hook stored on T: the recursion follows the
  inheritance chain upwards, and carries fuel (\<open>None\<close> when it runs out).
\<close>

fun register_derived_class ::
  "nat \<Rightarrow> string \<Rightarrow> string \<Rightarrow> JSClassID \<Rightarrow> ptr_cast_fcn \<Rightarrow> statics \<Rightarrow> statics option"
and call_register_with_base ::
  "nat \<Rightarrow> hook \<Rightarrow> JSClassID \<Rightarrow> ptr_cast_fcn \<Rightarrow> statics \<Rightarrow> statics option" where
  "register_derived_class 0 T D derived_class_id ptr_cast_fcn st = None"
| "register_derived_class (Suc n) T D derived_class_id ptr_cast_fcn st =
     (let st1 = st(T := (st T)\<lparr>ptr_cast_fcn_map :=
                   (ptr_cast_fcn_map (st T))(derived_class_id \<mapsto> ptr_cast_fcn)\<rparr>)
      in case (case register_with_base (st1 T) of
                 None \<Rightarrow> Some st1
               | Some h \<Rightarrow> call_register_with_base n h derived_class_id ptr_cast_fcn st1) of
           None \<Rightarrow> None
         | Some st2 \<Rightarrow>
             Some (st2(D := (st2 D)\<lparr>register_with_base :=
                     Some (Hook (register_with_base (st2 D)) T D)\<rparr>)))"
| "call_register_with_base 0 h derived_class_id derived_ptr_cast_fcn st = None"
| "call_register_with_base (Suc n) (Hook old_register_with_base T D) derived_class_id
       derived_ptr_cast_fcn st =
     (case (case old_register_with_base of
              None \<Rightarrow> Some st
            | Some h \<Rightarrow> call_register_with_base n h derived_class_id derived_ptr_cast_fcn st) of
        None \<Rightarrow> None
      | Some st1 \<Rightarrow>
          register_derived_class n T D derived_class_id (Converted T derived_ptr_cast_fcn) st1)"




section \<open>An example inheritance chain\<close>












section \<open>Verified properties\<close>

subsection \<open>Integers\<close>

lemma pow8_split: "0 < n \<Longrightarrow> (2::int) ^ (8 * n) = 2 * 2 ^ (8 * n - 1)"
proof -
  assume "0 < n"
  then have "8 * n = Suc (8 * n - 1)" by simp
  then show ?thesis by (metis power_Suc)
qed


lemma static_cast_in_range: "0 < sizeof T \<Longrightarrow> in_range T (static_cast T x)"
proof (cases T)
  case Bool
  then show ?thesis by (simp add: in_range_def)
next
  case (Signed n)
  assume pos: "0 < sizeof T"
  from pos Signed have n: "0 < n" by simp
  have "0 \<le> (x + 2 ^ (8 * n - 1)) mod 2 ^ (8 * n)" by simp
  moreover have "(x + 2 ^ (8 * n - 1)) mod 2 ^ (8 * n) < 2 ^ (8 * n)" by simp
  ultimately show ?thesis using Signed pow8_split [OF n] by (simp add: in_range_def)
next
  case (Unsigned n)
  have "x mod 2 ^ (8 * n) < 2 ^ (8 * n)" by simp
  with Unsigned show ?thesis by (simp add: in_range_def)
qed




lemma routes_int64_width:
  "K \<noteq> Bool \<Longrightarrow> routes_int64 K = (is_signed K \<or> sizeof int32_t < sizeof K)"
proof (cases K)
  case Bool
  assume "K \<noteq> Bool"
  with Bool show ?thesis by simp
next
  case (Signed n)
  then show ?thesis by (simp add: routes_int64_def)
next
  case (Unsigned n)
  have "((2::int) ^ 32 < 2 ^ (8 * n)) = (32 < 8 * n)" by (rule power_strict_increasing_iff) simp
  then have "((4294967295::int) < 2 ^ (8 * n) - 1) = (4 < n)" by auto
  with Unsigned show ?thesis by (simp add: routes_int64_def UINT32_MAX_def int32_t_def)
qed

text \<open>
  Claim C8. For every integer key type K of at most 64 bits, get and set go through the
  signed 64-bit accessor when K's maximum exceeds \<^verbatim>\<open>UINT32_MAX\<close> or K is signed, and
  through the unsigned 32-bit accessor otherwise; a set whose engine status is negative
  throws \<^verbatim>\<open>exception(ctx)\<close> with the engine's error pending, and succeeds otherwise.
  For a type other than \<^verbatim>\<open>bool\<close> the routing condition says: signed, or wider than 32 bits.
\<close>

theorem property_traits_routing:
  assumes "sizeof K \<le> sizeof int64_t"
  shows "property_traits_get g64 g32 K cx this_obj idx =
           Some (if numeric_limits_max K > UINT32_MAX \<or> is_signed K
                 then g64 cx this_obj (static_cast int64_t idx)
                 else g32 cx this_obj (static_cast uint32_t idx)) \<and>
         property_traits_set s64 s32 K cx this_obj idx val =
           Some (if fst (if numeric_limits_max K > UINT32_MAX \<or> is_signed K
                         then s64 cx this_obj (static_cast int64_t idx) val
                         else s32 cx this_obj (static_cast uint32_t idx) val) < 0
                 then Inl (exception EnginePending) else Inr (),
                 snd (if numeric_limits_max K > UINT32_MAX \<or> is_signed K
                      then s64 cx this_obj (static_cast int64_t idx) val
                      else s32 cx this_obj (static_cast uint32_t idx) val)) \<and>
         (K \<noteq> Bool \<longrightarrow>
            (numeric_limits_max K > UINT32_MAX \<or> is_signed K) = (is_signed K \<or> sizeof int32_t < sizeof K))"
proof -
  have "K \<noteq> Bool \<longrightarrow>
          (numeric_limits_max K > UINT32_MAX \<or> is_signed K) = (is_signed K \<or> sizeof int32_t < sizeof K)"
    using routes_int64_width [of K] by (simp add: routes_int64_def)
  then show ?thesis
    using assms
    by (simp add: property_traits_get_def property_traits_set_def property_traits_requires_def
        routes_int64_def split: prod.split)
qed

theorem property_traits_routing_witness:
  "property_traits_get (\<lambda>(c::unit) (obj::string) i. ''int64'') (\<lambda>c obj i. ''uint32'') (Signed 4) () ''o'' 7 = Some ''int64'' \<and>
   property_traits_get (\<lambda>(c::unit) (obj::string) i. ''int64'') (\<lambda>c obj i. ''uint32'') (Unsigned 8) () ''o'' 7 = Some ''int64'' \<and>
   property_traits_get (\<lambda>(c::unit) (obj::string) i. ''int64'') (\<lambda>c obj i. ''uint32'') (Unsigned 4) () ''o'' 7 = Some ''uint32'' \<and>
   property_traits_set (\<lambda>(c::unit) (obj::string) i x. (- 1, c)) (\<lambda>c obj i x. (0, c)) (Signed 4) () ''o'' 7 ''x''
     = Some (Inl (exception EnginePending), ())"
  using property_traits_routing [where K = "Signed 4" and cx = "()" and this_obj = "''o''" and idx = 7 and val = "''x''"
          and ?g64.0 = "\<lambda>(c::unit) (obj::string) i. ''int64''" and ?g32.0 = "\<lambda>(c::unit) (obj::string) i. ''uint32''"
          and ?s64.0 = "\<lambda>(c::unit) (obj::string) i (x::string). (- 1, c)"
          and ?s32.0 = "\<lambda>(c::unit) (obj::string) i (x::string). (0, c)"]
        property_traits_routing [where K = "Unsigned 8" and cx = "()" and this_obj = "''o''" and idx = 7 and val = "''x''"
          and ?g64.0 = "\<lambda>(c::unit) (obj::string) i. ''int64''" and ?g32.0 = "\<lambda>(c::unit) (obj::string) i. ''uint32''"
          and ?s64.0 = "\<lambda>(c::unit) (obj::string) i (x::string). (- 1, c)"
          and ?s32.0 = "\<lambda>(c::unit) (obj::string) i (x::string). (0, c)"]
        property_traits_routing [where K = "Unsigned 4" and cx = "()" and this_obj = "''o''" and idx = 7 and val = "''x''"
          and ?g64.0 = "\<lambda>(c::unit) (obj::string) i. ''int64''" and ?g32.0 = "\<lambda>(c::unit) (obj::string) i. ''uint32''"
          and ?s64.0 = "\<lambda>(c::unit) (obj::string) i (x::string). (- 1, c)"
          and ?s32.0 = "\<lambda>(c::unit) (obj::string) i (x::string). (0, c)"]
  by (simp add: int64_t_def UINT32_MAX_def)

text \<open>
  Claim C9. Unwrapping as bool returns a plain boolean for every runtime value: true
  exactly when \<^verbatim>\<open>JS_ToBool\<close> answers a strictly positive number, so a negative
  (failure) status becomes false and no error is raised.
\<close>

theorem bool_unwrap_collapses:
  "js_traits_bool_unwrap JS_ToBool cx val = (0 < JS_ToBool cx val) \<and>
   (JS_ToBool cx val < 0 \<longrightarrow> js_traits_bool_unwrap JS_ToBool cx val = False)"
  by (simp add: js_traits_bool_unwrap_def)

theorem bool_unwrap_collapses_witness:
  "js_traits_bool_unwrap (\<lambda>(c::unit) (v::int). v) () 1 = True \<and>
   js_traits_bool_unwrap (\<lambda>(c::unit) (v::int). v) () (-1) = False"
  using bool_unwrap_collapses [where JS_ToBool = "\<lambda>(c::unit) (v::int). v" and cx = "()" and val = 1]
        bool_unwrap_collapses [where JS_ToBool = "\<lambda>(c::unit) (v::int). v" and cx = "()" and val = "- 1"]
  by simp

subsection \<open>Value handles\<close>

lemma copies_state:
  "copies n rt h = (cs, rt') \<Longrightarrow>
   length cs = n \<and> (\<forall>c\<in>set cs. c = \<lparr>ctx = ctx h, v = v h\<rparr>) \<and>
   rt' = (if JS_VALUE_HAS_REF_COUNT (v h)
          then rt\<lparr>ref_count := (ref_count rt)(JS_VALUE_GET_PTR (v h) := ref_count rt (JS_VALUE_GET_PTR (v h)) + int n)\<rparr>
          else rt)"
proof (induction n arbitrary: rt cs rt')
  case 0
  then show ?case by simp
next
  case (Suc n)
  obtain cs1 rt1 where r: "copies n (JS_DupValue rt (v h)) h = (cs1, rt1)" by fastforce
  from Suc.prems r have cs: "cs = \<lparr>ctx = ctx h, v = v h\<rparr> # cs1" and rt': "rt' = rt1"
    by (simp_all add: value_copy_def)
  from Suc.IH [OF r] show ?case unfolding cs rt'
    by (auto simp: JS_DupValue_def add.assoc)
qed

lemma destroy_all_counted:
  assumes "JS_VALUE_HAS_REF_COUNT x" "c \<noteq> None" "JS_VALUE_GET_TAG x \<noteq> JS_TAG_MODULE"
  shows "\<forall>h\<in>set cs. h = \<lparr>ctx = c, v = x\<rparr> \<Longrightarrow> int (length cs) < ref_count rt (JS_VALUE_GET_PTR x) \<Longrightarrow>
   destroy_all rt cs =
     rt\<lparr>ref_count := (ref_count rt)(JS_VALUE_GET_PTR x := ref_count rt (JS_VALUE_GET_PTR x) - int (length cs))\<rparr>"
proof (induction cs arbitrary: rt)
  case Nil
  then show ?case by simp
next
  case (Cons h cs)
  from Cons.prems have h: "h = \<lparr>ctx = c, v = x\<rparr>" by simp
  let ?rt1 = "rt\<lparr>ref_count := (ref_count rt)(JS_VALUE_GET_PTR x := ref_count rt (JS_VALUE_GET_PTR x) - 1)\<rparr>"
  from Cons.prems(2) assms have d: "value_destroy rt h = ?rt1"
    by (simp add: h value_destroy_def JS_FreeValue_def Let_def)
  from Cons.prems have a: "\<forall>h\<in>set cs. h = \<lparr>ctx = c, v = x\<rparr>" by simp
  from Cons.prems have b: "int (length cs) < ref_count ?rt1 (JS_VALUE_GET_PTR x)" by simp
  have "destroy_all rt (h # cs) = destroy_all ?rt1 cs" by (simp only: d destroy_all.simps)
  also have "\<dots> = ?rt1\<lparr>ref_count := (ref_count ?rt1)(JS_VALUE_GET_PTR x := ref_count ?rt1 (JS_VALUE_GET_PTR x) - int (length cs))\<rparr>"
    by (rule Cons.IH [OF a b])
  also have "\<dots> = rt\<lparr>ref_count := (ref_count rt)(JS_VALUE_GET_PTR x := ref_count rt (JS_VALUE_GET_PTR x) - int (length (h # cs)))\<rparr>"
    by (simp add: algebra_simps)
  finally show ?case .
qed

lemma destroy_all_uncounted:
  "\<not> JS_VALUE_HAS_REF_COUNT x \<Longrightarrow> \<forall>h\<in>set cs. h = \<lparr>ctx = c, v = x\<rparr> \<Longrightarrow> destroy_all rt cs = rt"
  by (induction cs arbitrary: rt) (simp_all add: value_destroy_def JS_FreeValue_def)

lemma copies_destroy_all:
  assumes c: "ctx h \<noteq> None" and m: "JS_VALUE_GET_TAG (v h) \<noteq> JS_TAG_MODULE"
    and o: "JS_VALUE_HAS_REF_COUNT (v h) \<longrightarrow> 1 \<le> ref_count rt (JS_VALUE_GET_PTR (v h))"
    and r: "copies n rt h = (cs, rt')"
  shows "length cs = n \<and> destroy_all rt' cs = rt"
proof (cases "JS_VALUE_HAS_REF_COUNT (v h)")
  case True
  let ?p = "JS_VALUE_GET_PTR (v h)"
  from copies_state [OF r] True
  have l: "length cs = n" and a: "\<forall>c\<in>set cs. c = \<lparr>ctx = ctx h, v = v h\<rparr>"
    and rt': "rt' = rt\<lparr>ref_count := (ref_count rt)(?p := ref_count rt ?p + int n)\<rparr>"
    by simp_all
  from o True l have "int (length cs) < ref_count rt' ?p" by (simp add: rt')
  from destroy_all_counted [OF True c m a this]
  show ?thesis by (simp add: l rt')
next
  case False
  from copies_state [OF r] False
  have l: "length cs = n" and a: "\<forall>c\<in>set cs. c = \<lparr>ctx = ctx h, v = v h\<rparr>" and rt': "rt' = rt"
    by simp_all
  from destroy_all_uncounted [OF False a] show ?thesis by (simp add: l rt')
qed

text \<open>
  Claim C7, as amended. For a handle with a non-null context whose value is not
  module-tagged (and which holds a reference when the value is counted): the copy has
  the same context and value and duplicates the reference, destroying the copy restores
  the engine state, and destroying both handles releases exactly the original's own
  reference; a move or a release hands the value over and nulls the source's context,
  so destroying the source changes nothing; and creating n copies and destroying them
  all gives back the engine state from before, reference counts included.
\<close>

theorem value_reference_discipline:
  assumes c: "ctx h \<noteq> None" and m: "JS_VALUE_GET_TAG (v h) \<noteq> JS_TAG_MODULE"
    and o: "JS_VALUE_HAS_REF_COUNT (v h) \<longrightarrow> 1 \<le> ref_count rt (JS_VALUE_GET_PTR (v h))"
  shows "fst (value_copy rt h) = \<lparr>ctx = ctx h, v = v h\<rparr> \<and>
         snd (value_copy rt h) = JS_DupValue rt (v h) \<and>
         value_destroy (snd (value_copy rt h)) (fst (value_copy rt h)) = rt \<and>
         value_destroy (value_destroy (snd (value_copy rt h)) (fst (value_copy rt h))) h = JS_FreeValue rt (v h) \<and>
         fst (value_move h) = \<lparr>ctx = ctx h, v = v h\<rparr> \<and>
         ctx (snd (value_move h)) = None \<and>
         value_destroy rt (snd (value_move h)) = rt \<and>
         fst (value_release h) = v h \<and>
         ctx (snd (value_release h)) = None \<and>
         value_destroy rt (snd (value_release h)) = rt \<and>
         length (fst (copies n rt h)) = n \<and>
         destroy_all (snd (copies n rt h)) (fst (copies n rt h)) = rt"
proof -
  have d: "value_destroy (JS_DupValue rt (v h)) \<lparr>ctx = ctx h, v = v h\<rparr> = rt"
    using c m o by (auto simp: value_destroy_def JS_FreeValue_def JS_DupValue_def Let_def)
  have n: "length (fst (copies n rt h)) = n \<and> destroy_all (snd (copies n rt h)) (fst (copies n rt h)) = rt"
    by (rule copies_destroy_all [OF c m o]) simp
  show ?thesis using d n c m
    by (simp add: value_copy_def value_move_def value_release_def value_destroy_def)
qed

theorem value_reference_discipline_witness:
  "length (fst (copies 3 fresh_context string_handle_a)) = 3 \<and>
   destroy_all (snd (copies 3 fresh_context string_handle_a)) (fst (copies 3 fresh_context string_handle_a))
     = fresh_context"
  using value_reference_discipline [of string_handle_a fresh_context 3]
  by (simp add: string_handle_a_def fresh_context_def JS_TAG_STRING_def JS_TAG_MODULE_def)

text \<open>
  Claim C7 as stated fails for a module-tagged handle: the copy constructor duplicates
  the reference, the destructor skips module-tagged values, so one copy created and
  destroyed leaves the count at 2 instead of 1. The same happens for a handle without a
  context, as \<^verbatim>\<open>explicit value(JSValue&&)\<close> builds and a move leaves behind: its copy
  duplicates the reference of the object and releases nothing.
\<close>

theorem module_handle_copy_leaks:
  "ctx module_handle \<noteq> None \<and>
   ref_count fresh_context (JS_VALUE_GET_PTR (v module_handle)) = 1 \<and>
   ref_count (destroy_all (snd (copies 1 fresh_context module_handle)) (fst (copies 1 fresh_context module_handle)))
     (JS_VALUE_GET_PTR (v module_handle)) = 2 \<and>
   ref_count fresh_context (JS_VALUE_GET_PTR (v detached_handle)) = 1 \<and>
   ref_count (destroy_all (snd (copies 1 fresh_context detached_handle)) (fst (copies 1 fresh_context detached_handle)))
     (JS_VALUE_GET_PTR (v detached_handle)) = 2"
  by (simp add: module_handle_def detached_handle_def fresh_context_def value_copy_def value_destroy_def
      JS_DupValue_def JS_VALUE_HAS_REF_COUNT_def JS_TAG_MODULE_def JS_TAG_OBJECT_def JS_TAG_FIRST_def)

text \<open>
  Claim C10. Two handles are equal exactly when their raw values have the same tag and
  the same payload word; whatever the cells contain, handles to two different cells
  compare unequal, also when the contents are the same.
\<close>

theorem value_eq_is_identity:
  "value_eq a b = (JS_VALUE_GET_TAG (v a) = JS_VALUE_GET_TAG (v b) \<and>
                   JS_VALUE_GET_PTR (v a) = JS_VALUE_GET_PTR (v b)) \<and>
   (JS_VALUE_GET_PTR (v a) \<noteq> JS_VALUE_GET_PTR (v b) \<and>
      content (JS_VALUE_GET_PTR (v a)) = content (JS_VALUE_GET_PTR (v b)) \<longrightarrow> \<not> value_eq a b)"
  by (simp add: value_eq_def value_eq_JSValue_def)

theorem value_eq_is_identity_witness:
  "\<not> value_eq string_handle_a string_handle_b \<and> value_eq string_handle_a string_handle_a"
  using value_eq_is_identity [of string_handle_a string_handle_b "\<lambda>p. ''same text''"]
        value_eq_is_identity [of string_handle_a string_handle_a "\<lambda>p. ''same text''"]
  by (simp add: string_handle_a_def string_handle_b_def)

subsection \<open>Unwrapping the arguments of a call\<close>



lemma size_t_minus_wraps: "n < I \<Longrightarrow> I \<le> INT_MAX \<Longrightarrow> size_t_minus n I > PTRDIFF_MAX"
proof -
  assume a: "n < I" "I \<le> INT_MAX"
  then have i: "I < 2 ^ 31" and n: "n < 2 ^ 31" by (simp_all add: INT_MAX_def)
  from i have "I mod 2 ^ 64 = I" by simp
  moreover have "n + 2 ^ 64 - I < 2 ^ 64" using a(1) by simp
  then have "(n + 2 ^ 64 - I) mod 2 ^ 64 = n + 2 ^ 64 - I" by simp
  ultimately have "size_t_minus n I = n + 2 ^ 64 - I" by (simp add: size_t_minus_def)
  with i show ?thesis by (simp add: PTRDIFF_MAX_def)
qed





















subsection \<open>Optional\<close>



subsection \<open>Derived-class casts\<close>








end
